theory Spec2Isabelle
  imports Main "HOL-Library.Word"
begin

section \<open>The runtime as the embedding sees it\<close>

text \<open>
  The program is \<^verbatim>\<open>spider-monkey-integration/example_type_embedding.cpp\<close>: a 64-bit
  integer wrapper \<^verbatim>\<open>MyType\<close> exposed to SpiderMonkey, first by hand
  (\<^verbatim>\<open>AdaptedMyType\<close>), then hardened (\<^verbatim>\<open>toNumber\<close> with receiver checks), then
  generated by the templates \<^verbatim>\<open>wrapFunction\<close> and \<^verbatim>\<open>wrapConstrainedMethod\<close>.

  SpiderMonkey itself is not part of the program. Its state is modelled as far as the
  program touches it: a heap of objects, each with a class, a prototype link and one
  private pointer; the native heap of \<^verbatim>\<open>MyType\<close> allocations; the pending exception of
  the context; and the return slot of the running call.
\<close>

type_synonym objref = nat
type_synonym ptr = nat
type_synonym clasp = nat

text \<open>\<^verbatim>\<open>struct MyType { int64_t val; };\<close> The word is read as two's complement (\<open>sint\<close>).\<close>

record MyType =
  val :: "64 word"

text \<open>
  A \<^verbatim>\<open>JS::Value\<close>. A number is an IEEE double; the only doubles this program makes come
  from \<^verbatim>\<open>static_cast<double>(int64_t)\<close> and are integers, so a number carries the
  integer it is equal to.
\<close>

datatype js_value =
  JSUndefined
| JSNull
| JSNumber int
| JSString string
| JSObject objref

text \<open>
  What a C++ \<^verbatim>\<open>throw\<close> carries. The program itself throws only
  \<^verbatim>\<open>std::runtime_error\<close>; a callback body may throw anything, and \<^verbatim>\<open>catch (...)\<close>
  takes both.
\<close>

datatype cpp_exception =
  runtime_error string
| other_exception string

text \<open>
  A \<^verbatim>\<open>JSObject\<close>: the address of its \<^verbatim>\<open>JSClass\<close>, its prototype, and the
  \<^verbatim>\<open>void*\<close> of \<^verbatim>\<open>JS_GetPrivate\<close>/\<^verbatim>\<open>JS_SetPrivate\<close> (\<open>None\<close> is \<^verbatim>\<open>nullptr\<close>).
\<close>

record js_object =
  obj_class :: clasp
  obj_proto :: "objref option"
  obj_private :: "ptr option"

record js_context =
  heap :: "objref \<rightharpoonup> js_object"
  next_obj :: objref
  native :: "ptr \<rightharpoonup> MyType"
  next_ptr :: ptr
  pending :: "cpp_exception option"
  rval :: js_value

text \<open>\<^verbatim>\<open>JS::CallArgs\<close>: the receiver and the arguments (the return slot is in the context).\<close>

record call_args =
  thisv :: js_value
  argv :: "js_value list"

text \<open>\<^verbatim>\<open>args.get(i)\<close> is \<^verbatim>\<open>undefined\<close> past the last argument.\<close>

definition get_arg :: "call_args \<Rightarrow> nat \<Rightarrow> js_value" where
  "get_arg args i = (if i < length (argv args) then argv args ! i else JSUndefined)"

fun isObject :: "js_value \<Rightarrow> bool" where
  "isObject (JSObject obj) = True"
| "isObject v = False"

subsection \<open>The SpiderMonkey calls the program makes\<close>

text \<open>
  \<^verbatim>\<open>JS_NewObject(cx, clasp, proto)\<close>: a new object of the class, with the prototype and
  a null private pointer. Allocation failure is not modelled.
\<close>

definition JS_NewObject :: "clasp \<Rightarrow> objref option \<Rightarrow> js_context \<Rightarrow> objref \<times> js_context" where
  "JS_NewObject c p cx =
     (next_obj cx,
      cx\<lparr>heap := (heap cx)(next_obj cx \<mapsto> \<lparr>obj_class = c, obj_proto = p, obj_private = None\<rparr>),
         next_obj := Suc (next_obj cx)\<rparr>)"

text \<open>
  \<^verbatim>\<open>JS_InitClass(cx, global, parent_proto, clasp, ...)\<close> makes the prototype object of the
  class, itself an object of that class, and returns it. (Binding the constructor and
  the methods into \<^verbatim>\<open>global\<close> is not modelled.)
\<close>

definition JS_InitClass :: "clasp \<Rightarrow> objref option \<Rightarrow> js_context \<Rightarrow> objref \<times> js_context" where
  "JS_InitClass c parent cx = JS_NewObject c parent cx"

text \<open>\<^verbatim>\<open>JS_InstanceOf(cx, obj, clasp, nullptr)\<close>: the object's class is \<^verbatim>\<open>clasp\<close>.\<close>

definition JS_InstanceOf :: "js_context \<Rightarrow> objref \<Rightarrow> clasp \<Rightarrow> bool" where
  "JS_InstanceOf cx obj c =
     (case heap cx obj of None \<Rightarrow> False | Some ob \<Rightarrow> obj_class ob = c)"

text \<open>
  \<^verbatim>\<open>JS_GetPrivate(obj)\<close> and \<^verbatim>\<open>JS_SetPrivate(obj, p)\<close> read and overwrite the private
  pointer; neither looks at what the slot held. Handles refer to live objects; on a
  reference outside the heap the model reads null and writes nothing.
\<close>

definition JS_GetPrivate :: "js_context \<Rightarrow> objref \<Rightarrow> ptr option" where
  "JS_GetPrivate cx obj =
     (case heap cx obj of None \<Rightarrow> None | Some ob \<Rightarrow> obj_private ob)"

definition JS_SetPrivate :: "objref \<Rightarrow> ptr option \<Rightarrow> js_context \<Rightarrow> js_context" where
  "JS_SetPrivate obj p cx =
     (case heap cx obj of
        None \<Rightarrow> cx
      | Some ob \<Rightarrow> cx\<lparr>heap := (heap cx)(obj \<mapsto> ob\<lparr>obj_private := p\<rparr>)\<rparr>)"

text \<open>
  Modelled from the spec: \<^verbatim>\<open>void cppToJSException(JSContext* cx)\<close> is declared and not
  defined ("a lippincott function that encodes a c++ exception as a JavaScript
  exception"). It leaves the exception in flight as the context's pending exception and
  changes nothing else.
\<close>

definition cppToJSException :: "cpp_exception \<Rightarrow> js_context \<Rightarrow> js_context" where
  "cppToJSException e cx = cx\<lparr>pending := Some e\<rparr>"

section \<open>The call adapters\<close>

text \<open>
  A callback body \<^verbatim>\<open>static void T::call(JSContext* cx, JS::CallArgs args)\<close>: it changes
  the context and either returns (\<open>None\<close>) or throws (\<open>Some e\<close>); what it changed before
  throwing stays changed.
\<close>

type_synonym native_call = "call_args \<Rightarrow> js_context \<Rightarrow> cpp_exception option \<times> js_context"

text \<open>
  \<^verbatim>\<open>try { ...; return true; } catch (...) { cppToJSException(cx); return false; }\<close>
  around a block that has run to \<open>r\<close>.
\<close>

definition catch_all :: "cpp_exception option \<times> js_context \<Rightarrow> bool \<times> js_context" where
  "catch_all r =
     (case r of
        (None, cx') \<Rightarrow> (True, cx')
      | (Some e, cx') \<Rightarrow> (False, cppToJSException e cx'))"

definition wrapFunction :: "native_call \<Rightarrow> call_args \<Rightarrow> js_context \<Rightarrow> bool \<times> js_context" where
  "wrapFunction call args cx = catch_all (call args cx)"

subsection \<open>The bookkeeping of one adapted type\<close>

text \<open>
  \<^verbatim>\<open>class AdaptedMyType\<close> keeps, per context, its \<^verbatim>\<open>_jsclass\<close> (whose address is the
  identity of the class) and the rooted prototype \<^verbatim>\<open>_proto\<close>;
  \<^verbatim>\<open>WrapType<T>\<close> exposes the same two as \<^verbatim>\<open>getJSClass()\<close> and \<^verbatim>\<open>getProto()\<close>.
  \<^verbatim>\<open>fromContext(cx)\<close> is the adapter passed as an argument.
\<close>

record adapter =
  jsclass :: clasp
  proto :: objref

text \<open>
  The constructor \<^verbatim>\<open>AdaptedMyType(ctx, global)\<close>: \<^verbatim>\<open>_proto\<close> is what \<^verbatim>\<open>JS_InitClass\<close>
  returns for \<^verbatim>\<open>&_jsclass\<close> with parent \<^verbatim>\<open>JS::NullPtr()\<close>.
\<close>

definition AdaptedMyType_init :: "clasp \<Rightarrow> js_context \<Rightarrow> adapter \<times> js_context" where
  "AdaptedMyType_init c cx =
     (case JS_InitClass c None cx of (p, cx') \<Rightarrow> (\<lparr>jsclass = c, proto = p\<rparr>, cx'))"

text \<open>\<^verbatim>\<open>out.set(JS_NewObject(_context, &_jsclass, _proto))\<close>\<close>

definition newObject :: "adapter \<Rightarrow> js_context \<Rightarrow> objref \<times> js_context" where
  "newObject a cx = JS_NewObject (jsclass a) (Some (proto a)) cx"

text \<open>\<^verbatim>\<open>bool instanceOf(JS::HandleObject object)\<close>, the member.\<close>

definition AdaptedMyType_instanceOf :: "adapter \<Rightarrow> js_context \<Rightarrow> objref \<Rightarrow> bool" where
  "AdaptedMyType_instanceOf a cx obj = JS_InstanceOf cx obj (jsclass a)"

text \<open>
  Modelled from the spec: the template
  \<^verbatim>\<open>std::tuple<bool, bool> instanceOf<Args...>(JSContext* cx, JS::HandleValue value)\<close>
  is declared and not defined. Its comment gives the pair: the value is of one of the
  \<^verbatim>\<open>Args\<close> types; the value is the prototype of one of them. The first is asked of each
  type's adapter as the member \<^verbatim>\<open>instanceOf\<close> does, the second is identity with its
  \<^verbatim>\<open>_proto\<close>, as the hand-written \<^verbatim>\<open>toNumber\<close> does.
\<close>

definition instanceOf :: "adapter list \<Rightarrow> js_context \<Rightarrow> js_value \<Rightarrow> bool \<times> bool" where
  "instanceOf Args cx v =
     (case v of
        JSObject obj \<Rightarrow>
          (list_ex (\<lambda>t. AdaptedMyType_instanceOf t cx obj) Args,
           list_ex (\<lambda>t. proto t = obj) Args)
      | _ \<Rightarrow> (False, False))"

text \<open>
  \<^verbatim>\<open>template <typename T, bool noProto, typename... Args> wrapConstrainedMethod\<close>, with
  \<^verbatim>\<open>T::name()\<close> and \<^verbatim>\<open>T::call\<close> as the first and fourth argument.
\<close>

definition wrapConstrainedMethod ::
  "string \<Rightarrow> bool \<Rightarrow> adapter list \<Rightarrow> native_call \<Rightarrow> call_args \<Rightarrow> js_context \<Rightarrow> bool \<times> js_context" where
  "wrapConstrainedMethod name noProto Args call args cx =
     catch_all
       (if \<not> isObject (thisv args) then
          (Some (runtime_error (name @ '' can only be called on objects'')), cx)
        else
          (case instanceOf Args cx (thisv args) of
             (correctType, isProto) \<Rightarrow>
               if \<not> correctType then
                 (Some (runtime_error
                    (name @ '' can only be called on objects of the correct type'')), cx)
               else if noProto \<and> isProto then
                 (Some (runtime_error (name @ '' cannot be called on the prototype'')), cx)
               else call args cx))"

text \<open>
  The three receiver failures of a generated method, by the names the specification
  gives them; each is the \<^verbatim>\<open>std::runtime_error\<close> the template throws.
\<close>

definition NotAnObject :: "string \<Rightarrow> cpp_exception" where
  "NotAnObject name = runtime_error (name @ '' can only be called on objects'')"

definition WrongType :: "string \<Rightarrow> cpp_exception" where
  "WrongType name =
     runtime_error (name @ '' can only be called on objects of the correct type'')"

definition CalledOnPrototype :: "string \<Rightarrow> cpp_exception" where
  "CalledOnPrototype name = runtime_error (name @ '' cannot be called on the prototype'')"

section \<open>The hand-written adapter of \<^verbatim>\<open>MyType\<close>\<close>

subsection \<open>The C and C++ library calls\<close>

text \<open>
  \<^verbatim>\<open>new MyType{v}\<close> and \<^verbatim>\<open>delete ptr\<close> on the native heap. Deleting a pointer that is
  not a live allocation is undefined behaviour: \<open>None\<close>.
\<close>

definition cpp_new :: "MyType \<Rightarrow> js_context \<Rightarrow> ptr \<times> js_context" where
  "cpp_new m cx =
     (next_ptr cx, cx\<lparr>native := (native cx)(next_ptr cx \<mapsto> m), next_ptr := Suc (next_ptr cx)\<rparr>)"

definition cpp_delete :: "ptr \<Rightarrow> js_context \<Rightarrow> js_context option" where
  "cpp_delete p cx =
     (case native cx p of
        None \<Rightarrow> None
      | Some m \<Rightarrow> Some (cx\<lparr>native := (native cx)(p := None)\<rparr>))"

text \<open>
  \<^verbatim>\<open>std::atoll\<close>: skip white space, take one optional sign, read decimal digits up to
  the first character that is not one (the terminating NUL of \<^verbatim>\<open>bstr.ptr()\<close> at the
  latest). No digits give 0. A value outside \<^verbatim>\<open>long long\<close> is undefined behaviour:
  \<open>None\<close>.
\<close>

definition isspace :: "char \<Rightarrow> bool" where
  "isspace c = (c = CHR '' '' \<or> (9 \<le> (of_char c :: nat) \<and> (of_char c :: nat) \<le> 13))"

definition isdigit :: "char \<Rightarrow> bool" where
  "isdigit c = (48 \<le> (of_char c :: nat) \<and> (of_char c :: nat) \<le> 57)"

definition digit_val :: "char \<Rightarrow> nat" where
  "digit_val c = of_char c - 48"

fun read_digits :: "nat \<Rightarrow> string \<Rightarrow> nat" where
  "read_digits acc [] = acc"
| "read_digits acc (c # cs) =
     (if isdigit c then read_digits (10 * acc + digit_val c) cs else acc)"

fun read_sign :: "string \<Rightarrow> bool \<times> string" where
  "read_sign [] = (False, [])"
| "read_sign (c # cs) =
     (if c = CHR ''-'' then (True, cs)
      else if c = CHR ''+'' then (False, cs)
      else (False, c # cs))"

definition atoll :: "string \<Rightarrow> 64 word option" where
  "atoll s =
     (case read_sign (dropWhile isspace s) of
        (neg, ds) \<Rightarrow>
          (let n = int (read_digits 0 ds); v = (if neg then - n else n)
           in if - (2 ^ 63) \<le> v \<and> v < 2 ^ 63 then Some (word_of_int v) else None))"

text \<open>\<^verbatim>\<open>std::to_string(long long)\<close>: the decimal digits, after a minus sign when negative.\<close>

definition digit_char :: "nat \<Rightarrow> char" where
  "digit_char d = char_of (48 + d)"

fun dec :: "nat \<Rightarrow> string" where
  "dec n = (if n < 10 then [digit_char n] else dec (n div 10) @ [digit_char (n mod 10)])"

declare dec.simps [simp del]

definition to_string :: "64 word \<Rightarrow> string" where
  "to_string v =
     (if sint v < 0 then CHR ''-'' # dec (nat (- sint v)) else dec (nat (sint v)))"

text \<open>
  \<^verbatim>\<open>static_cast<double>(int64_t)\<close>: the nearest double, ties to the even mantissa. A
  double has 53 significant bits, so a value of more bits loses the low ones.
\<close>

fun bit_count :: "nat \<Rightarrow> nat" where
  "bit_count n = (if n = 0 then 0 else Suc (bit_count (n div 2)))"

declare bit_count.simps [simp del]

definition int64_to_double :: "64 word \<Rightarrow> int" where
  "int64_to_double w =
     (let i = sint w; a = nat \<bar>i\<bar>; e = bit_count a - 53;
          q = a div 2 ^ e; r = a mod 2 ^ e;
          q' = (if 2 ^ e < 2 * r \<or> (2 * r = 2 ^ e \<and> odd q) then q + 1 else q)
      in sgn i * int (q' * 2 ^ e))"

text \<open>
  \<^verbatim>\<open>toObjectOrNull()\<close> of a value that holds an object; \<open>None\<close> is the null pointer (the
  program dereferences the result without a test, so \<open>None\<close> ends in undefined
  behaviour).
\<close>

fun toObjectOrNull :: "js_value \<Rightarrow> objref option" where
  "toObjectOrNull (JSObject obj) = Some obj"
| "toObjectOrNull v = None"

subsection \<open>The callbacks of \<^verbatim>\<open>AdaptedMyType\<close>\<close>

text \<open>
  These are the callbacks as first written, without checks. Where the C++ has
  undefined behaviour (a null or dangling pointer is dereferenced, a value that is not
  a string is read as one) the result is \<open>None\<close>.

  \<^verbatim>\<open>finalize\<close>: read the private pointer and delete it unless it is null.
\<close>

definition AdaptedMyType_finalize :: "objref \<Rightarrow> js_context \<Rightarrow> js_context option" where
  "AdaptedMyType_finalize obj cx =
     (case JS_GetPrivate cx obj of
        None \<Rightarrow> Some cx
      | Some p \<Rightarrow> cpp_delete p cx)"

text \<open>
  \<^verbatim>\<open>construct\<close>: parse the first argument, allocate the payload, make the object, store
  the pointer, hand the object out, return \<^verbatim>\<open>true\<close>.
\<close>

definition AdaptedMyType_construct ::
  "adapter \<Rightarrow> call_args \<Rightarrow> js_context \<Rightarrow> (bool \<times> js_context) option" where
  "AdaptedMyType_construct a args cx =
     (case get_arg args 0 of
        JSString str \<Rightarrow>
          (case atoll str of
             None \<Rightarrow> None
           | Some v \<Rightarrow>
               (case cpp_new \<lparr>val = v\<rparr> cx of
                  (p, cx1) \<Rightarrow>
                    (case newObject a cx1 of
                       (out, cx2) \<Rightarrow>
                         Some (True, (JS_SetPrivate out (Some p) cx2)\<lparr>rval := JSObject out\<rparr>))))
      | _ \<Rightarrow> None)"

text \<open>The payload \<^verbatim>\<open>static_cast<MyType*>(JS_GetPrivate(args.thisv().toObjectOrNull()))\<close>
  dereferenced, as both accessors do.\<close>

definition this_payload :: "call_args \<Rightarrow> js_context \<Rightarrow> MyType option" where
  "this_payload args cx =
     (case toObjectOrNull (thisv args) of
        None \<Rightarrow> None
      | Some obj \<Rightarrow>
          (case JS_GetPrivate cx obj of
             None \<Rightarrow> None
           | Some p \<Rightarrow> native cx p))"

definition AdaptedMyType_toNumber :: "call_args \<Rightarrow> js_context \<Rightarrow> (bool \<times> js_context) option" where
  "AdaptedMyType_toNumber args cx =
     (case this_payload args cx of
        None \<Rightarrow> None
      | Some m \<Rightarrow> Some (True, cx\<lparr>rval := JSNumber (int64_to_double (val m))\<rparr>))"

definition AdaptedMyType_toString :: "call_args \<Rightarrow> js_context \<Rightarrow> (bool \<times> js_context) option" where
  "AdaptedMyType_toString args cx =
     (case this_payload args cx of
        None \<Rightarrow> None
      | Some m \<Rightarrow> Some (True, cx\<lparr>rval := JSString (to_string (val m))\<rparr>))"

text \<open>The script \<^verbatim>\<open>new MyType(s).toString()\<close>: what the second call leaves in its return
  slot.\<close>

definition construct_toString :: "adapter \<Rightarrow> string \<Rightarrow> js_context \<Rightarrow> js_value option" where
  "construct_toString a s cx =
     (case AdaptedMyType_construct a \<lparr>thisv = JSUndefined, argv = [JSString s]\<rparr> cx of
        None \<Rightarrow> None
      | Some (ok, cx1) \<Rightarrow>
          (case AdaptedMyType_toString \<lparr>thisv = rval cx1, argv = []\<rparr> cx1 of
             None \<Rightarrow> None
           | Some (ok', cx2) \<Rightarrow> Some (rval cx2)))"

subsection \<open>\<^verbatim>\<open>toNumber\<close> with its receiver checked\<close>

text \<open>
  The free function \<^verbatim>\<open>toNumber\<close> that the source gives as the robust version. The
  three tests throw; after them the payload is read as before, so an instance whose
  slot is still null is undefined behaviour here too.
\<close>

definition toNumber :: "adapter \<Rightarrow> call_args \<Rightarrow> js_context \<Rightarrow> (bool \<times> js_context) option" where
  "toNumber a args cx =
     (if \<not> isObject (thisv args) then
        Some (catch_all
          (Some (runtime_error ''MyType::toNumber can only be called on objects''), cx))
      else
        (case toObjectOrNull (thisv args) of
           None \<Rightarrow> None
         | Some obj \<Rightarrow>
             if \<not> AdaptedMyType_instanceOf a cx obj then
               Some (catch_all
                 (Some (runtime_error
                    ''MyType::toNumber can only be called on objects of type MyType''), cx))
             else if proto a = obj then
               Some (catch_all
                 (Some (runtime_error
                    ''MyType::toNumber can't be called on the prototype''), cx))
             else
               (case this_payload args cx of
                  None \<Rightarrow> None
                | Some m \<Rightarrow>
                    Some (catch_all
                      (None, cx\<lparr>rval := JSNumber (int64_to_double (val m))\<rparr>)))))"

section \<open>Creating an instance through the constructor\<close>

text \<open>
  Modelled from the spec: \<^verbatim>\<open>WrapType<T>::newInstance(args, out)\<close> is declared and not
  defined, and the body of \<^verbatim>\<open>AdaptedMyTypeInfo::construct\<close> is elided. By the
  specification \<^verbatim>\<open>newInstance\<close> creates the object as \<^verbatim>\<open>newObject\<close> does, then invokes
  the construct hook with the arguments to populate the private slot; if construction
  fails the partially built object is discarded and the failure is propagated. The hook
  is a callback body that receives the new object as its receiver; a discarded object
  leaves the heap.
\<close>

definition newInstance ::
  "adapter \<Rightarrow> native_call \<Rightarrow> js_value list \<Rightarrow> js_context \<Rightarrow> (cpp_exception + objref) \<times> js_context" where
  "newInstance w construct_hook as cx =
     (case newObject w cx of
        (obj, cx1) \<Rightarrow>
          (case construct_hook \<lparr>thisv = JSObject obj, argv = as\<rparr> cx1 of
             (Some e, cx2) \<Rightarrow> (Inl e, cx2\<lparr>heap := (heap cx2)(obj := None)\<rparr>)
           | (None, cx2) \<Rightarrow> (Inr obj, cx2)))"

section \<open>The private slot as the specification names it\<close>




section \<open>Classes of constructor arguments\<close>

text \<open>
  A decimal string that represents a 64-bit signed integer: an optional minus sign,
  then one or more decimal digits, with the value in \<^verbatim>\<open>int64_t\<close>.
\<close>

definition decimal_int64 :: "string \<Rightarrow> bool" where
  "decimal_int64 s =
     (case read_sign s of
        (neg, ds) \<Rightarrow>
          ds \<noteq> [] \<and> list_all isdigit ds \<and> (neg \<or> ds = s) \<and>
          (let n = int (read_digits 0 ds); v = (if neg then - n else n)
           in - (2 ^ 63) \<le> v \<and> v < 2 ^ 63))"

text \<open>
  A string whose leading characters form no decimal number: after the white space and
  the sign that \<^verbatim>\<open>atoll\<close> passes over, the string ends or goes on with a character
  that is not a digit.
\<close>

definition no_leading_number :: "string \<Rightarrow> bool" where
  "no_leading_number s =
     (case snd (read_sign (dropWhile isspace s)) of
        [] \<Rightarrow> True
      | c # cs \<Rightarrow> \<not> isdigit c)"

text \<open>
  Such a string in the one form \<^verbatim>\<open>std::to_string\<close> prints: no digit 0 in front of
  another digit, and no minus sign in front of zero.
\<close>

definition canonical_decimal :: "string \<Rightarrow> bool" where
  "canonical_decimal s =
     (decimal_int64 s \<and>
      (case read_sign s of
         (neg, []) \<Rightarrow> False
       | (neg, c # cs) \<Rightarrow> c \<noteq> CHR ''0'' \<or> (cs = [] \<and> \<not> neg)))"

section \<open>States the program reaches\<close>

text \<open>
  What the constructor of an adapter establishes and the program keeps: the prototype
  is a live object, allocated earlier, of the adapter's own class, with a null private
  pointer.
\<close>

definition installed :: "adapter \<Rightarrow> js_context \<Rightarrow> bool" where
  "installed a cx =
     (proto a < next_obj cx \<and>
      (case heap cx (proto a) of
         None \<Rightarrow> False
       | Some ob \<Rightarrow> obj_class ob = jsclass a \<and> obj_private ob = None))"

subsection \<open>Example contexts and bodies\<close>

text \<open>A context with nothing in it, and the class address used in the examples.\<close>

definition cx0 :: js_context where
  "cx0 = \<lparr>heap = Map.empty, next_obj = 0, native = Map.empty, next_ptr = 1,
          pending = None, rval = JSUndefined\<rparr>"

definition MyType_clasp :: clasp where
  "MyType_clasp = 7"

text \<open>
  A body that counts its own runs in the return slot and returns, and one that counts
  and then throws something that is not a \<^verbatim>\<open>std::runtime_error\<close>.
\<close>

definition bump_rval :: "js_context \<Rightarrow> js_context" where
  "bump_rval cx = cx\<lparr>rval := (case rval cx of JSNumber n \<Rightarrow> JSNumber (n + 1) | _ \<Rightarrow> JSNumber 1)\<rparr>"

definition counting_body :: native_call where
  "counting_body args cx = (None, bump_rval cx)"

definition throwing_body :: native_call where
  "throwing_body args cx = (Some (other_exception ''std::bad_alloc''), bump_rval cx)"

text \<open>
  \<^verbatim>\<open>MyType\<close> installed in the empty context, a second class installed after it, and an
  instance of each: \<^verbatim>\<open>new MyType("42")\<close> and a bare object of the second class.
\<close>

definition a0 :: adapter where
  "a0 = fst (AdaptedMyType_init MyType_clasp cx0)"

definition cx1 :: js_context where
  "cx1 = snd (AdaptedMyType_init MyType_clasp cx0)"

definition other_clasp :: clasp where
  "other_clasp = 9"

definition b0 :: adapter where
  "b0 = fst (AdaptedMyType_init other_clasp cx1)"

definition cx2 :: js_context where
  "cx2 = snd (AdaptedMyType_init other_clasp cx1)"

definition cx3 :: js_context where
  "cx3 = snd (newObject b0 cx2)"

definition cx4 :: js_context where
  "cx4 = (case AdaptedMyType_construct a0 \<lparr>thisv = JSUndefined, argv = [JSString ''42'']\<rparr> cx3 of
            None \<Rightarrow> cx3
          | Some (ok, cx) \<Rightarrow> cx\<lparr>rval := JSUndefined\<rparr>)"

text \<open>A construct hook that attaches nothing and throws.\<close>

definition failing_hook :: native_call where
  "failing_hook args cx = (Some (runtime_error ''construction failed''), cx)"

section \<open>The example states, evaluated\<close>

lemma atoll_42: "atoll ''42'' = Some 42"
  by (simp add: atoll_def isspace_def isdigit_def digit_val_def)

lemma a0_eq: "a0 = \<lparr>jsclass = 7, proto = 0\<rparr>"
  by (simp add: a0_def AdaptedMyType_init_def JS_InitClass_def JS_NewObject_def cx0_def
      MyType_clasp_def)

lemma b0_eq: "b0 = \<lparr>jsclass = 9, proto = 1\<rparr>"
  by (simp add: b0_def cx1_def AdaptedMyType_init_def JS_InitClass_def JS_NewObject_def cx0_def
      MyType_clasp_def other_clasp_def)

lemma cx4_eq:
  "cx4 = \<lparr>heap = [0 \<mapsto> \<lparr>obj_class = 7, obj_proto = None, obj_private = None\<rparr>,
                   1 \<mapsto> \<lparr>obj_class = 9, obj_proto = None, obj_private = None\<rparr>,
                   2 \<mapsto> \<lparr>obj_class = 9, obj_proto = Some 1, obj_private = None\<rparr>,
                   3 \<mapsto> \<lparr>obj_class = 7, obj_proto = Some 0, obj_private = Some 1\<rparr>],
           next_obj = 4, native = [1 \<mapsto> \<lparr>val = 42\<rparr>], next_ptr = 2,
           pending = None, rval = JSUndefined\<rparr>"
  by (simp add: cx4_def cx3_def cx2_def cx1_def a0_eq b0_eq AdaptedMyType_construct_def
      get_arg_def atoll_42 cpp_new_def newObject_def JS_SetPrivate_def
      AdaptedMyType_init_def JS_InitClass_def JS_NewObject_def cx0_def
      MyType_clasp_def other_clasp_def numeral_eq_Suc)

lemma installed_a0_cx4: "installed a0 cx4"
  by (simp add: installed_def a0_eq cx4_eq)

lemma instanceOf_a0_cx4:
  "instanceOf [a0] cx4 (JSObject 0) = (True, True)"
  "instanceOf [a0] cx4 (JSObject 1) = (False, False)"
  "instanceOf [a0] cx4 (JSObject 2) = (False, False)"
  "instanceOf [a0] cx4 (JSObject 3) = (True, False)"
  by (simp_all add: instanceOf_def AdaptedMyType_instanceOf_def JS_InstanceOf_def a0_eq cx4_eq)

lemma rval_cx4 [simp]: "rval cx4 = JSUndefined" "pending cx4 = None"
  by (simp_all add: cx4_eq)

section \<open>Properties of the call adapters\<close>

lemma catch_all_throw [simp]:
  "catch_all (Some e, cx) = (False, cx\<lparr>pending := Some e\<rparr>)"
  by (simp add: catch_all_def cppToJSException_def)

lemma catch_all_return [simp]: "catch_all (None, cx) = (True, cx)"
  by (simp add: catch_all_def)

lemma wrapConstrainedMethod_passes:
  assumes "isObject (thisv args)"
    and "instanceOf Args cx (thisv args) = (True, isProto)"
    and "\<not> (noProto \<and> isProto)"
  shows "wrapConstrainedMethod name noProto Args call args cx = catch_all (call args cx)"
  using assms by (auto simp: wrapConstrainedMethod_def)

text \<open>
  C2. Whatever a wrapped body throws, \<^verbatim>\<open>wrapFunction\<close> returns \<open>False\<close> with that
  exception pending in the context and everything else as the body left it; when the
  body returns, \<^verbatim>\<open>wrapFunction\<close> returns \<open>True\<close> with the context, return slot included,
  exactly as the body left it. The adapter is a total function to \<open>bool \<times> js_context\<close>:
  no exception leaves it. The catch clause of \<^verbatim>\<open>wrapConstrainedMethod\<close> does the same
  for a body it reaches.
\<close>

theorem wrapFunction_catches_everything:
  "(\<forall>e cx'. call args cx = (Some e, cx') \<longrightarrow>
      wrapFunction call args cx = (False, cx'\<lparr>pending := Some e\<rparr>)) \<and>
   (\<forall>cx'. call args cx = (None, cx') \<longrightarrow> wrapFunction call args cx = (True, cx')) \<and>
   (isObject (thisv args) \<and> instanceOf Args cx (thisv args) = (True, isProto) \<and>
    \<not> (noProto \<and> isProto) \<longrightarrow>
      wrapConstrainedMethod name noProto Args call args cx = wrapFunction call args cx)"
  by (simp add: wrapFunction_def wrapConstrainedMethod_passes)

theorem wrapFunction_catches_everything_witness:
  "fst (wrapFunction throwing_body \<lparr>thisv = JSUndefined, argv = []\<rparr> cx0) = False \<and>
   pending (snd (wrapFunction throwing_body \<lparr>thisv = JSUndefined, argv = []\<rparr> cx0)) =
     Some (other_exception ''std::bad_alloc'') \<and>
   rval (snd (wrapFunction throwing_body \<lparr>thisv = JSUndefined, argv = []\<rparr> cx0)) = JSNumber 1 \<and>
   fst (wrapFunction counting_body \<lparr>thisv = JSUndefined, argv = []\<rparr> cx0) = True \<and>
   pending (snd (wrapFunction counting_body \<lparr>thisv = JSUndefined, argv = []\<rparr> cx0)) = None \<and>
   rval (snd (wrapFunction counting_body \<lparr>thisv = JSUndefined, argv = []\<rparr> cx0)) = JSNumber 1 \<and>
   wrapConstrainedMethod ''toString'' True [a0] throwing_body
     \<lparr>thisv = JSObject 3, argv = []\<rparr> cx4 =
     wrapFunction throwing_body \<lparr>thisv = JSObject 3, argv = []\<rparr> cx4 \<and>
   wrapFunction throwing_body \<lparr>thisv = JSObject 3, argv = []\<rparr> cx4 =
     (False, (bump_rval cx4)\<lparr>pending := Some (other_exception ''std::bad_alloc'')\<rparr>)"
proof -
  let ?args = "\<lparr>thisv = JSUndefined, argv = []\<rparr>"
  let ?recv = "\<lparr>thisv = JSObject 3, argv = []\<rparr>"
  have t: "throwing_body ?args cx0 = (Some (other_exception ''std::bad_alloc''), bump_rval cx0)"
    by (simp add: throwing_body_def)
  have c: "counting_body ?args cx0 = (None, bump_rval cx0)"
    by (simp add: counting_body_def)
  have r: "rval (bump_rval cx0) = JSNumber 1" "pending (bump_rval cx0) = None"
    by (simp_all add: bump_rval_def cx0_def)
  from wrapFunction_catches_everything [of throwing_body ?args cx0] t
  have 1: "wrapFunction throwing_body ?args cx0 =
      (False, (bump_rval cx0)\<lparr>pending := Some (other_exception ''std::bad_alloc'')\<rparr>)"
    by blast
  from wrapFunction_catches_everything [of counting_body ?args cx0] c
  have 2: "wrapFunction counting_body ?args cx0 = (True, bump_rval cx0)"
    by blast
  have p: "isObject (thisv ?recv) \<and> instanceOf [a0] cx4 (thisv ?recv) = (True, False) \<and>
      \<not> (True \<and> False)"
    by (simp add: instanceOf_a0_cx4)
  from wrapFunction_catches_everything [where call = throwing_body and args = ?recv
      and cx = cx4 and Args = "[a0]" and isProto = False and noProto = True
      and name = "''toString''"] p
  have 3: "wrapConstrainedMethod ''toString'' True [a0] throwing_body ?recv cx4 =
      wrapFunction throwing_body ?recv cx4"
    by blast
  have t': "throwing_body ?recv cx4 = (Some (other_exception ''std::bad_alloc''), bump_rval cx4)"
    by (simp add: throwing_body_def)
  from wrapFunction_catches_everything [of throwing_body ?recv cx4] t'
  have 4: "wrapFunction throwing_body ?recv cx4 =
      (False, (bump_rval cx4)\<lparr>pending := Some (other_exception ''std::bad_alloc'')\<rparr>)"
    by blast
  show ?thesis by (simp add: 1 2 r 3 4)
qed

subsection \<open>The receiver checks\<close>

lemma AdaptedMyType_init_installed:
  "AdaptedMyType_init c cx = (a, cx') \<Longrightarrow> installed a cx' \<and> jsclass a = c"
  by (auto simp: AdaptedMyType_init_def JS_InitClass_def JS_NewObject_def installed_def)

lemma installed_instanceOf:
  "installed a cx \<Longrightarrow> AdaptedMyType_instanceOf a cx (proto a)"
  by (auto simp: installed_def AdaptedMyType_instanceOf_def JS_InstanceOf_def
      split: option.splits)

lemma instanceOf_prototype:
  assumes "installed a cx" and "a \<in> set Args"
  shows "instanceOf Args cx (JSObject (proto a)) = (True, True)"
proof -
  from assms have "list_ex (\<lambda>t. AdaptedMyType_instanceOf t cx (proto a)) Args"
    by (auto simp: list_ex_iff intro: installed_instanceOf)
  moreover from assms(2) have "list_ex (\<lambda>t. proto t = proto a) Args"
    by (auto simp: list_ex_iff)
  ultimately show ?thesis by (simp add: instanceOf_def)
qed

lemma instanceOf_not_object:
  "\<not> isObject v \<Longrightarrow> instanceOf Args cx v = (False, False)"
  by (cases v) (simp_all add: instanceOf_def)

lemma wrapConstrainedMethod_not_object:
  "\<not> isObject (thisv args) \<Longrightarrow>
   wrapConstrainedMethod name noProto Args call args cx =
     (False, cx\<lparr>pending := Some (NotAnObject name)\<rparr>)"
  by (simp add: wrapConstrainedMethod_def NotAnObject_def)

lemma wrapConstrainedMethod_wrong_type:
  "isObject (thisv args) \<Longrightarrow> \<not> fst (instanceOf Args cx (thisv args)) \<Longrightarrow>
   wrapConstrainedMethod name noProto Args call args cx =
     (False, cx\<lparr>pending := Some (WrongType name)\<rparr>)"
  by (cases "instanceOf Args cx (thisv args)") (simp add: wrapConstrainedMethod_def WrongType_def)

lemma wrapConstrainedMethod_on_prototype:
  "isObject (thisv args) \<Longrightarrow> instanceOf Args cx (thisv args) = (True, True) \<Longrightarrow>
   wrapConstrainedMethod name True Args call args cx =
     (False, cx\<lparr>pending := Some (CalledOnPrototype name)\<rparr>)"
  by (simp add: wrapConstrainedMethod_def CalledOnPrototype_def)

text \<open>
  C1. The receiver checks of a generated method run in a fixed order, and each failure
  ends the call before the body: a receiver that is not an object gives
  \<open>NotAnObject\<close> whatever the type test would say; an object of none of the allowed
  types gives \<open>WrongType\<close> whether or not it is a prototype; only an object of an
  allowed type is tested against the prototypes, and with \<^verbatim>\<open>noProto\<close> set the
  prototype gives \<open>CalledOnPrototype\<close>. In the three failures the result does not
  mention the body: the context is the one before the call with the exception pending.
  Only when all tests pass is the result that of running the body. The hand-written
  \<^verbatim>\<open>toNumber\<close> makes the same three tests in the same order.
\<close>

theorem receiver_checks_in_order:
  "(\<not> isObject (thisv args) \<longrightarrow>
      wrapConstrainedMethod name noProto Args call args cx =
        (False, cx\<lparr>pending := Some (NotAnObject name)\<rparr>)) \<and>
   (isObject (thisv args) \<and> \<not> fst (instanceOf Args cx (thisv args)) \<longrightarrow>
      wrapConstrainedMethod name noProto Args call args cx =
        (False, cx\<lparr>pending := Some (WrongType name)\<rparr>)) \<and>
   (isObject (thisv args) \<and> fst (instanceOf Args cx (thisv args)) \<and>
    noProto \<and> snd (instanceOf Args cx (thisv args)) \<longrightarrow>
      wrapConstrainedMethod name noProto Args call args cx =
        (False, cx\<lparr>pending := Some (CalledOnPrototype name)\<rparr>)) \<and>
   (isObject (thisv args) \<and> fst (instanceOf Args cx (thisv args)) \<and>
    \<not> (noProto \<and> snd (instanceOf Args cx (thisv args))) \<longrightarrow>
      wrapConstrainedMethod name noProto Args call args cx = catch_all (call args cx)) \<and>
   (\<not> isObject (thisv args) \<longrightarrow>
      toNumber a args cx =
        Some (False, cx\<lparr>pending := Some (runtime_error
          ''MyType::toNumber can only be called on objects'')\<rparr>)) \<and>
   (\<forall>obj. thisv args = JSObject obj \<and> \<not> AdaptedMyType_instanceOf a cx obj \<longrightarrow>
      toNumber a args cx =
        Some (False, cx\<lparr>pending := Some (runtime_error
          ''MyType::toNumber can only be called on objects of type MyType'')\<rparr>)) \<and>
   (\<forall>obj. thisv args = JSObject obj \<and> AdaptedMyType_instanceOf a cx obj \<and> proto a = obj \<longrightarrow>
      toNumber a args cx =
        Some (False, cx\<lparr>pending := Some (runtime_error
          ''MyType::toNumber can't be called on the prototype'')\<rparr>))"
proof (intro conjI impI allI)
  assume "\<not> isObject (thisv args)"
  then show "wrapConstrainedMethod name noProto Args call args cx =
        (False, cx\<lparr>pending := Some (NotAnObject name)\<rparr>)"
    by (rule wrapConstrainedMethod_not_object)
next
  assume "isObject (thisv args) \<and> \<not> fst (instanceOf Args cx (thisv args))"
  then show "wrapConstrainedMethod name noProto Args call args cx =
        (False, cx\<lparr>pending := Some (WrongType name)\<rparr>)"
    by (simp add: wrapConstrainedMethod_wrong_type)
next
  assume "isObject (thisv args) \<and> fst (instanceOf Args cx (thisv args)) \<and>
    noProto \<and> snd (instanceOf Args cx (thisv args))"
  then show "wrapConstrainedMethod name noProto Args call args cx =
        (False, cx\<lparr>pending := Some (CalledOnPrototype name)\<rparr>)"
    by (cases "instanceOf Args cx (thisv args)") (simp add: wrapConstrainedMethod_on_prototype)
next
  assume "isObject (thisv args) \<and> fst (instanceOf Args cx (thisv args)) \<and>
    \<not> (noProto \<and> snd (instanceOf Args cx (thisv args)))"
  then show "wrapConstrainedMethod name noProto Args call args cx = catch_all (call args cx)"
    by (cases "instanceOf Args cx (thisv args)") (auto simp: wrapConstrainedMethod_def)
next
  assume "\<not> isObject (thisv args)"
  then show "toNumber a args cx =
        Some (False, cx\<lparr>pending := Some (runtime_error
          ''MyType::toNumber can only be called on objects'')\<rparr>)"
    by (simp add: toNumber_def)
next
  fix obj
  assume "thisv args = JSObject obj \<and> \<not> AdaptedMyType_instanceOf a cx obj"
  then show "toNumber a args cx =
        Some (False, cx\<lparr>pending := Some (runtime_error
          ''MyType::toNumber can only be called on objects of type MyType'')\<rparr>)"
    by (simp add: toNumber_def)
next
  fix obj
  assume "thisv args = JSObject obj \<and> AdaptedMyType_instanceOf a cx obj \<and> proto a = obj"
  then show "toNumber a args cx =
        Some (False, cx\<lparr>pending := Some (runtime_error
          ''MyType::toNumber can't be called on the prototype'')\<rparr>)"
    by (auto simp: toNumber_def)
qed

theorem receiver_checks_in_order_witness:
  "wrapConstrainedMethod ''toNumber'' True [a0] counting_body
     \<lparr>thisv = JSNumber 5, argv = []\<rparr> cx4 =
     (False, cx4\<lparr>pending := Some (NotAnObject ''toNumber'')\<rparr>) \<and>
   wrapConstrainedMethod ''toNumber'' True [a0] counting_body
     \<lparr>thisv = JSObject 2, argv = []\<rparr> cx4 =
     (False, cx4\<lparr>pending := Some (WrongType ''toNumber'')\<rparr>) \<and>
   wrapConstrainedMethod ''toNumber'' True [a0] counting_body
     \<lparr>thisv = JSObject 0, argv = []\<rparr> cx4 =
     (False, cx4\<lparr>pending := Some (CalledOnPrototype ''toNumber'')\<rparr>) \<and>
   wrapConstrainedMethod ''toNumber'' True [a0] counting_body
     \<lparr>thisv = JSObject 3, argv = []\<rparr> cx4 = (True, bump_rval cx4) \<and>
   rval (bump_rval cx4) = JSNumber 1 \<and>
   toNumber a0 \<lparr>thisv = JSNumber 5, argv = []\<rparr> cx4 =
     Some (False, cx4\<lparr>pending := Some (runtime_error
       ''MyType::toNumber can only be called on objects'')\<rparr>) \<and>
   toNumber a0 \<lparr>thisv = JSObject 2, argv = []\<rparr> cx4 =
     Some (False, cx4\<lparr>pending := Some (runtime_error
       ''MyType::toNumber can only be called on objects of type MyType'')\<rparr>) \<and>
   toNumber a0 \<lparr>thisv = JSObject 0, argv = []\<rparr> cx4 =
     Some (False, cx4\<lparr>pending := Some (runtime_error
       ''MyType::toNumber can't be called on the prototype'')\<rparr>)"
proof -
  note T = receiver_checks_in_order [where name = "''toNumber''" and noProto = True
      and Args = "[a0]" and call = counting_body and cx = cx4 and a = a0]
  have i: "\<not> AdaptedMyType_instanceOf a0 cx4 2" "AdaptedMyType_instanceOf a0 cx4 0"
    "proto a0 = 0"
    by (simp_all add: AdaptedMyType_instanceOf_def JS_InstanceOf_def a0_eq cx4_eq)
  from T [of "\<lparr>thisv = JSNumber 5, argv = []\<rparr>"]
  have 1: "wrapConstrainedMethod ''toNumber'' True [a0] counting_body
      \<lparr>thisv = JSNumber 5, argv = []\<rparr> cx4 =
      (False, cx4\<lparr>pending := Some (NotAnObject ''toNumber'')\<rparr>)"
    and 5: "toNumber a0 \<lparr>thisv = JSNumber 5, argv = []\<rparr> cx4 =
      Some (False, cx4\<lparr>pending := Some (runtime_error
        ''MyType::toNumber can only be called on objects'')\<rparr>)"
    by simp_all
  from T [of "\<lparr>thisv = JSObject 2, argv = []\<rparr>"] i
  have 2: "wrapConstrainedMethod ''toNumber'' True [a0] counting_body
      \<lparr>thisv = JSObject 2, argv = []\<rparr> cx4 =
      (False, cx4\<lparr>pending := Some (WrongType ''toNumber'')\<rparr>)"
    and 6: "toNumber a0 \<lparr>thisv = JSObject 2, argv = []\<rparr> cx4 =
      Some (False, cx4\<lparr>pending := Some (runtime_error
        ''MyType::toNumber can only be called on objects of type MyType'')\<rparr>)"
    by (simp_all add: instanceOf_a0_cx4)
  from T [of "\<lparr>thisv = JSObject 0, argv = []\<rparr>"] i
  have 3: "wrapConstrainedMethod ''toNumber'' True [a0] counting_body
      \<lparr>thisv = JSObject 0, argv = []\<rparr> cx4 =
      (False, cx4\<lparr>pending := Some (CalledOnPrototype ''toNumber'')\<rparr>)"
    and 7: "toNumber a0 \<lparr>thisv = JSObject 0, argv = []\<rparr> cx4 =
      Some (False, cx4\<lparr>pending := Some (runtime_error
        ''MyType::toNumber can't be called on the prototype'')\<rparr>)"
    by (simp_all add: instanceOf_a0_cx4)
  from T [of "\<lparr>thisv = JSObject 3, argv = []\<rparr>"]
  have 4: "wrapConstrainedMethod ''toNumber'' True [a0] counting_body
      \<lparr>thisv = JSObject 3, argv = []\<rparr> cx4 = (True, bump_rval cx4)"
    by (simp add: instanceOf_a0_cx4 counting_body_def)
  have 8: "rval (bump_rval cx4) = JSNumber 1"
    by (simp add: bump_rval_def)
  from 1 2 3 4 5 6 7 8 show ?thesis by blast
qed

text \<open>
  C3. The prototype of an installed type is an instance of the type
  (\<^verbatim>\<open>instanceOf\<close> is true of it) and is recognised as the prototype; a method generated
  with \<^verbatim>\<open>noProto = true\<close> and called on it returns \<open>False\<close> with
  \<open>CalledOnPrototype\<close> pending, and the context is otherwise the one before the call
  whatever the body is: the body has not run. The hand-written \<^verbatim>\<open>toNumber\<close> refuses
  the prototype in the same way.
\<close>

theorem method_on_prototype_refused:
  assumes "installed a cx" and "a \<in> set Args" and "thisv args = JSObject (proto a)"
  shows "AdaptedMyType_instanceOf a cx (proto a) \<and>
    instanceOf Args cx (thisv args) = (True, True) \<and>
    wrapConstrainedMethod name True Args call args cx =
      (False, cx\<lparr>pending := Some (CalledOnPrototype name)\<rparr>) \<and>
    toNumber a args cx =
      Some (False, cx\<lparr>pending := Some (runtime_error
        ''MyType::toNumber can't be called on the prototype'')\<rparr>)"
proof -
  have inst: "AdaptedMyType_instanceOf a cx (proto a)"
    using assms(1) by (rule installed_instanceOf)
  have pair: "instanceOf Args cx (thisv args) = (True, True)"
    using assms by (simp add: instanceOf_prototype)
  have obj: "isObject (thisv args)"
    using assms(3) by simp
  have gen: "wrapConstrainedMethod name True Args call args cx =
      (False, cx\<lparr>pending := Some (CalledOnPrototype name)\<rparr>)"
    using obj pair by (rule wrapConstrainedMethod_on_prototype)
  have hand: "toNumber a args cx =
      Some (False, cx\<lparr>pending := Some (runtime_error
        ''MyType::toNumber can't be called on the prototype'')\<rparr>)"
    using inst assms(3) by (simp add: toNumber_def)
  from inst pair gen hand show ?thesis by blast
qed

theorem method_on_prototype_refused_witness:
  "installed a0 cx4 \<and> proto a0 = 0 \<and>
   AdaptedMyType_instanceOf a0 cx4 0 \<and>
   wrapConstrainedMethod ''toString'' True [a0] counting_body
     \<lparr>thisv = JSObject 0, argv = []\<rparr> cx4 =
     (False, cx4\<lparr>pending := Some (CalledOnPrototype ''toString'')\<rparr>) \<and>
   rval (snd (wrapConstrainedMethod ''toString'' True [a0] counting_body
     \<lparr>thisv = JSObject 0, argv = []\<rparr> cx4)) = JSUndefined"
proof -
  have p: "proto a0 = 0" by (simp add: a0_eq)
  have h: "thisv \<lparr>thisv = JSObject 0, argv = []\<rparr> = JSObject (proto a0)"
    by (simp add: p)
  have m: "a0 \<in> set [a0]" by simp
  from method_on_prototype_refused [OF installed_a0_cx4 m h,
      where name = "''toString''" and call = counting_body]
  show ?thesis by (simp add: p installed_a0_cx4)
qed

text \<open>
  C4. A generated method called on an object of an installed type that is none of its
  allowed types returns \<open>False\<close> with \<open>WrongType\<close> pending; called on a value that is
  not an object it returns \<open>False\<close> with \<open>NotAnObject\<close> pending. In both the context
  is otherwise the one before the call whatever the body is. The hand-written
  \<^verbatim>\<open>toNumber\<close> has the same two refusals, with its own messages.
\<close>

theorem wrong_receiver_refused:
  "(\<forall>obj u. thisv args = JSObject obj \<and> AdaptedMyType_instanceOf u cx obj \<and>
       jsclass u \<notin> jsclass ` set Args \<longrightarrow>
      wrapConstrainedMethod name noProto Args call args cx =
        (False, cx\<lparr>pending := Some (WrongType name)\<rparr>)) \<and>
   (\<not> isObject (thisv args) \<longrightarrow>
      wrapConstrainedMethod name noProto Args call args cx =
        (False, cx\<lparr>pending := Some (NotAnObject name)\<rparr>)) \<and>
   (\<forall>obj u. thisv args = JSObject obj \<and> AdaptedMyType_instanceOf u cx obj \<and>
       jsclass u \<noteq> jsclass a \<longrightarrow>
      toNumber a args cx =
        Some (False, cx\<lparr>pending := Some (runtime_error
          ''MyType::toNumber can only be called on objects of type MyType'')\<rparr>)) \<and>
   (\<not> isObject (thisv args) \<longrightarrow>
      toNumber a args cx =
        Some (False, cx\<lparr>pending := Some (runtime_error
          ''MyType::toNumber can only be called on objects'')\<rparr>))"
proof (intro conjI impI allI)
  fix obj u
  assume h: "thisv args = JSObject obj \<and> AdaptedMyType_instanceOf u cx obj \<and>
       jsclass u \<notin> jsclass ` set Args"
  then have "\<not> list_ex (\<lambda>t. AdaptedMyType_instanceOf t cx obj) Args"
    by (auto simp: list_ex_iff AdaptedMyType_instanceOf_def JS_InstanceOf_def
        split: option.splits)
  with h have "\<not> fst (instanceOf Args cx (thisv args))"
    by (simp add: instanceOf_def)
  moreover from h have "isObject (thisv args)" by simp
  ultimately show "wrapConstrainedMethod name noProto Args call args cx =
        (False, cx\<lparr>pending := Some (WrongType name)\<rparr>)"
    by (simp add: wrapConstrainedMethod_wrong_type)
next
  assume "\<not> isObject (thisv args)"
  then show "wrapConstrainedMethod name noProto Args call args cx =
        (False, cx\<lparr>pending := Some (NotAnObject name)\<rparr>)"
    by (rule wrapConstrainedMethod_not_object)
next
  fix obj u
  assume h: "thisv args = JSObject obj \<and> AdaptedMyType_instanceOf u cx obj \<and>
       jsclass u \<noteq> jsclass a"
  then have "\<not> AdaptedMyType_instanceOf a cx obj"
    by (auto simp: AdaptedMyType_instanceOf_def JS_InstanceOf_def split: option.splits)
  with h show "toNumber a args cx =
        Some (False, cx\<lparr>pending := Some (runtime_error
          ''MyType::toNumber can only be called on objects of type MyType'')\<rparr>)"
    by (simp add: toNumber_def)
next
  assume "\<not> isObject (thisv args)"
  then show "toNumber a args cx =
        Some (False, cx\<lparr>pending := Some (runtime_error
          ''MyType::toNumber can only be called on objects'')\<rparr>)"
    by (simp add: toNumber_def)
qed

theorem wrong_receiver_refused_witness:
  "AdaptedMyType_instanceOf b0 cx4 2 \<and> jsclass b0 \<notin> jsclass ` set [a0] \<and>
   wrapConstrainedMethod ''toString'' True [a0] counting_body
     \<lparr>thisv = JSObject 2, argv = []\<rparr> cx4 =
     (False, cx4\<lparr>pending := Some (WrongType ''toString'')\<rparr>) \<and>
   wrapConstrainedMethod ''toString'' True [a0] counting_body
     \<lparr>thisv = JSString ''42'', argv = []\<rparr> cx4 =
     (False, cx4\<lparr>pending := Some (NotAnObject ''toString'')\<rparr>) \<and>
   toNumber a0 \<lparr>thisv = JSObject 2, argv = []\<rparr> cx4 =
     Some (False, cx4\<lparr>pending := Some (runtime_error
       ''MyType::toNumber can only be called on objects of type MyType'')\<rparr>) \<and>
   toNumber a0 \<lparr>thisv = JSString ''42'', argv = []\<rparr> cx4 =
     Some (False, cx4\<lparr>pending := Some (runtime_error
       ''MyType::toNumber can only be called on objects'')\<rparr>) \<and>
   NotAnObject ''toString'' \<noteq> WrongType ''toString''"
proof -
  have i: "AdaptedMyType_instanceOf b0 cx4 2"
    by (simp add: AdaptedMyType_instanceOf_def JS_InstanceOf_def b0_eq cx4_eq)
  have c: "jsclass b0 \<notin> jsclass ` set [a0]" "jsclass b0 \<noteq> jsclass a0"
    by (simp_all add: a0_eq b0_eq)
  note T = wrong_receiver_refused [where name = "''toString''" and noProto = True
      and Args = "[a0]" and call = counting_body and cx = cx4 and a = a0]
  from T [of "\<lparr>thisv = JSObject 2, argv = []\<rparr>"] i c
  have 1: "wrapConstrainedMethod ''toString'' True [a0] counting_body
      \<lparr>thisv = JSObject 2, argv = []\<rparr> cx4 =
      (False, cx4\<lparr>pending := Some (WrongType ''toString'')\<rparr>)"
    and 3: "toNumber a0 \<lparr>thisv = JSObject 2, argv = []\<rparr> cx4 =
      Some (False, cx4\<lparr>pending := Some (runtime_error
        ''MyType::toNumber can only be called on objects of type MyType'')\<rparr>)"
    by auto
  from T [of "\<lparr>thisv = JSString ''42'', argv = []\<rparr>"]
  have 2: "wrapConstrainedMethod ''toString'' True [a0] counting_body
      \<lparr>thisv = JSString ''42'', argv = []\<rparr> cx4 =
      (False, cx4\<lparr>pending := Some (NotAnObject ''toString'')\<rparr>)"
    and 4: "toNumber a0 \<lparr>thisv = JSString ''42'', argv = []\<rparr> cx4 =
      Some (False, cx4\<lparr>pending := Some (runtime_error
        ''MyType::toNumber can only be called on objects'')\<rparr>)"
    by simp_all
  have 5: "NotAnObject ''toString'' \<noteq> WrongType ''toString''"
    by (simp add: NotAnObject_def WrongType_def)
  from i c(1) 1 2 3 4 5 show ?thesis by blast
qed

text \<open>
  C10. A method generated with \<^verbatim>\<open>noProto = false\<close> runs its body on every receiver
  that is an object of an allowed type, the prototype of that type included: the
  result is that of the body under the catch clause.
\<close>

theorem prototype_accepted_without_noProto:
  "(isObject (thisv args) \<and> fst (instanceOf Args cx (thisv args)) \<longrightarrow>
      wrapConstrainedMethod name False Args call args cx = catch_all (call args cx)) \<and>
   (installed a cx \<and> a \<in> set Args \<and> thisv args = JSObject (proto a) \<longrightarrow>
      wrapConstrainedMethod name False Args call args cx = catch_all (call args cx))"
proof (intro conjI impI)
  assume "isObject (thisv args) \<and> fst (instanceOf Args cx (thisv args))"
  then show "wrapConstrainedMethod name False Args call args cx = catch_all (call args cx)"
    by (cases "instanceOf Args cx (thisv args)") (simp add: wrapConstrainedMethod_def)
next
  assume h: "installed a cx \<and> a \<in> set Args \<and> thisv args = JSObject (proto a)"
  then have "instanceOf Args cx (thisv args) = (True, True)"
    by (simp add: instanceOf_prototype)
  moreover from h have "isObject (thisv args)" by simp
  ultimately show "wrapConstrainedMethod name False Args call args cx = catch_all (call args cx)"
    by (simp add: wrapConstrainedMethod_def)
qed

theorem prototype_accepted_without_noProto_witness:
  "installed a0 cx4 \<and> proto a0 = 0 \<and>
   wrapConstrainedMethod ''toString'' False [a0] counting_body
     \<lparr>thisv = JSObject 0, argv = []\<rparr> cx4 = (True, bump_rval cx4) \<and>
   rval (bump_rval cx4) = JSNumber 1 \<and>
   wrapConstrainedMethod ''toString'' False [a0] throwing_body
     \<lparr>thisv = JSObject 3, argv = []\<rparr> cx4 =
     (False, (bump_rval cx4)\<lparr>pending := Some (other_exception ''std::bad_alloc'')\<rparr>)"
proof -
  have p: "proto a0 = 0" by (simp add: a0_eq)
  have h: "installed a0 cx4 \<and> a0 \<in> set [a0] \<and>
      thisv \<lparr>thisv = JSObject 0, argv = []\<rparr> = JSObject (proto a0)"
    by (simp add: p installed_a0_cx4)
  from prototype_accepted_without_noProto [where a = a0 and cx = cx4 and Args = "[a0]"
      and args = "\<lparr>thisv = JSObject 0, argv = []\<rparr>" and name = "''toString''"
      and call = counting_body] h
  have 1: "wrapConstrainedMethod ''toString'' False [a0] counting_body
      \<lparr>thisv = JSObject 0, argv = []\<rparr> cx4 = (True, bump_rval cx4)"
    by (simp add: counting_body_def)
  from prototype_accepted_without_noProto [where a = a0 and cx = cx4 and Args = "[a0]"
      and args = "\<lparr>thisv = JSObject 3, argv = []\<rparr>" and name = "''toString''"
      and call = throwing_body]
  have 2: "wrapConstrainedMethod ''toString'' False [a0] throwing_body
      \<lparr>thisv = JSObject 3, argv = []\<rparr> cx4 =
      (False, (bump_rval cx4)\<lparr>pending := Some (other_exception ''std::bad_alloc'')\<rparr>)"
    by (simp add: instanceOf_a0_cx4 throwing_body_def)
  have 3: "rval (bump_rval cx4) = JSNumber 1"
    by (simp add: bump_rval_def)
  from h p 1 2 3 show ?thesis by blast
qed

section \<open>Parsing and printing decimal numbers\<close>

lemma isdigit_digit_char: "d < 10 \<Longrightarrow> isdigit (digit_char d)"
  by (simp add: isdigit_def digit_char_def)

lemma digit_val_digit_char: "d < 10 \<Longrightarrow> digit_val (digit_char d) = d"
  by (simp add: digit_val_def digit_char_def)

lemma isdigit_not_space: "isdigit c \<Longrightarrow> \<not> isspace c"
  by (auto simp: isdigit_def isspace_def)

lemma isdigit_not_sign: "isdigit c \<Longrightarrow> c \<noteq> CHR ''-'' \<and> c \<noteq> CHR ''+''"
  by (auto simp: isdigit_def)

lemma dec_all_digits: "c \<in> set (dec n) \<Longrightarrow> isdigit c"
proof (induction n arbitrary: c rule: dec.induct)
  case (1 n)
  show ?case
  proof (cases "n < 10")
    case True
    with "1.prems" show ?thesis
      by (subst (asm) dec.simps) (simp add: isdigit_digit_char)
  next
    case False
    with "1.prems" have "c \<in> set (dec (n div 10)) \<or> c = digit_char (n mod 10)"
      by (subst (asm) dec.simps) auto
    then show ?thesis
    proof
      assume "c \<in> set (dec (n div 10))"
      with False show ?thesis by (rule "1.IH")
    next
      assume "c = digit_char (n mod 10)"
      then show ?thesis by (simp add: isdigit_digit_char)
    qed
  qed
qed

lemma dec_not_empty: "dec n \<noteq> []"
  by (subst dec.simps) simp

lemma dec_starts_with_digit: "\<exists>c cs. dec n = c # cs \<and> isdigit c"
proof (cases "dec n")
  case Nil
  then show ?thesis by (simp add: dec_not_empty)
next
  case (Cons c cs)
  then have "c \<in> set (dec n)" by simp
  then have "isdigit c" by (rule dec_all_digits)
  with Cons show ?thesis by blast
qed

lemma read_digits_snoc:
  "\<forall>c\<in>set xs. isdigit c \<Longrightarrow> isdigit d \<Longrightarrow>
   read_digits acc (xs @ [d]) = 10 * read_digits acc xs + digit_val d"
  by (induction xs arbitrary: acc) simp_all

lemma read_digits_dec: "read_digits 0 (dec n) = n"
proof (induction n rule: dec.induct)
  case (1 n)
  show ?case
  proof (cases "n < 10")
    case True
    then show ?thesis
      by (subst dec.simps) (simp add: isdigit_digit_char digit_val_digit_char)
  next
    case False
    have "read_digits 0 (dec (n div 10) @ [digit_char (n mod 10)]) =
        10 * read_digits 0 (dec (n div 10)) + digit_val (digit_char (n mod 10))"
      by (rule read_digits_snoc) (simp_all add: dec_all_digits isdigit_digit_char)
    also have "\<dots> = 10 * (n div 10) + n mod 10"
      using False by (simp add: "1.IH" digit_val_digit_char)
    also have "\<dots> = n" by simp
    finally show ?thesis
      using False by (subst dec.simps) simp
  qed
qed

lemma skip_space_dec: "dropWhile isspace (dec n) = dec n"
proof -
  obtain c cs where "dec n = c # cs" "isdigit c"
    using dec_starts_with_digit by blast
  then show ?thesis by (simp add: isdigit_not_space)
qed

lemma read_sign_dec: "read_sign (dec n) = (False, dec n)"
proof -
  obtain c cs where "dec n = c # cs" "isdigit c"
    using dec_starts_with_digit by blast
  then show ?thesis by (simp add: isdigit_not_sign)
qed

lemma minus_not_space: "\<not> isspace CHR ''-''"
  by (simp add: isspace_def)

lemma atoll_to_string: "atoll (to_string v) = Some v"
proof (cases "sint v < 0")
  case True
  have lo: "- (2 ^ 63) \<le> sint v"
    using sint_ge [of v] by simp
  have rd: "read_sign (dropWhile isspace (to_string v)) = (True, dec (nat (- sint v)))"
    using True by (simp add: to_string_def minus_not_space)
  have "atoll (to_string v) = Some (word_of_int (sint v))"
    using True lo by (simp add: atoll_def rd read_digits_dec)
  then show ?thesis by simp
next
  case False
  have hi: "sint v < 2 ^ 63"
    using sint_lt [of v] by simp
  have rd: "read_sign (dropWhile isspace (to_string v)) = (False, dec (nat (sint v)))"
    using False by (simp add: to_string_def skip_space_dec read_sign_dec)
  have "atoll (to_string v) = Some (word_of_int (sint v))"
    using False hi by (simp add: atoll_def rd read_digits_dec)
  then show ?thesis by simp
qed

section \<open>Properties of the hand-written adapter\<close>

lemma construct_result:
  assumes "get_arg args 0 = JSString s" and "atoll s = Some v"
  shows "AdaptedMyType_construct a args cx =
    Some (True,
      cx\<lparr>heap := (heap cx)(next_obj cx \<mapsto>
              \<lparr>obj_class = jsclass a, obj_proto = Some (proto a),
               obj_private = Some (next_ptr cx)\<rparr>),
         next_obj := Suc (next_obj cx),
         native := (native cx)(next_ptr cx \<mapsto> \<lparr>val = v\<rparr>),
         next_ptr := Suc (next_ptr cx),
         rval := JSObject (next_obj cx)\<rparr>)"
  using assms
  by (simp add: AdaptedMyType_construct_def cpp_new_def newObject_def JS_NewObject_def
      JS_SetPrivate_def)

lemma construct_Some:
  assumes "AdaptedMyType_construct a args cx = Some r"
  obtains s v where "get_arg args 0 = JSString s" and "atoll s = Some v"
  using assms
  by (auto simp: AdaptedMyType_construct_def split: js_value.splits option.splits)

lemma construct_toString_atoll:
  assumes "atoll s = Some w"
  shows "construct_toString a s cx = Some (JSString (to_string w))"
proof -
  have g: "get_arg \<lparr>thisv = JSUndefined, argv = [JSString s]\<rparr> 0 = JSString s"
    by (simp add: get_arg_def)
  show ?thesis
    by (simp add: construct_toString_def construct_result [OF g assms]
        AdaptedMyType_toString_def this_payload_def JS_GetPrivate_def)
qed

text \<open>
  C5. The finalizer on an object whose private slot is null returns the context as it
  was. On an object whose slot holds a live payload it returns the context with exactly
  that allocation gone from the native heap: every other allocation, every object and
  every other part of the context is as before. Neither case is undefined behaviour.
\<close>

theorem finalize_releases_stored_payload:
  "(heap cx obj = Some ob \<and> obj_private ob = None \<longrightarrow>
      AdaptedMyType_finalize obj cx = Some cx) \<and>
   (heap cx obj = Some ob \<and> obj_private ob = Some p \<and> native cx p = Some m \<longrightarrow>
      AdaptedMyType_finalize obj cx = Some (cx\<lparr>native := (native cx)(p := None)\<rparr>))"
  by (simp add: AdaptedMyType_finalize_def JS_GetPrivate_def cpp_delete_def)

theorem finalize_releases_stored_payload_witness:
  "heap cx4 0 = Some \<lparr>obj_class = 7, obj_proto = None, obj_private = None\<rparr> \<and>
   AdaptedMyType_finalize 0 cx4 = Some cx4 \<and>
   heap cx4 3 = Some \<lparr>obj_class = 7, obj_proto = Some 0, obj_private = Some 1\<rparr> \<and>
   native cx4 1 = Some \<lparr>val = 42\<rparr> \<and>
   AdaptedMyType_finalize 3 cx4 = Some (cx4\<lparr>native := (native cx4)(1 := None)\<rparr>)"
proof -
  have h0: "heap cx4 0 = Some \<lparr>obj_class = 7, obj_proto = None, obj_private = None\<rparr>"
    and h3: "heap cx4 3 = Some \<lparr>obj_class = 7, obj_proto = Some 0, obj_private = Some 1\<rparr>"
    and n1: "native cx4 1 = Some \<lparr>val = 42\<rparr>"
    by (simp_all add: cx4_eq)
  from finalize_releases_stored_payload [where cx = cx4 and obj = 0
      and ob = "\<lparr>obj_class = 7, obj_proto = None, obj_private = None\<rparr>"] h0
  have 1: "AdaptedMyType_finalize 0 cx4 = Some cx4" by simp
  from finalize_releases_stored_payload [where cx = cx4 and obj = 3
      and ob = "\<lparr>obj_class = 7, obj_proto = Some 0, obj_private = Some 1\<rparr>"
      and p = 1 and m = "\<lparr>val = 42\<rparr>"] h3 n1
  have 2: "AdaptedMyType_finalize 3 cx4 = Some (cx4\<lparr>native := (native cx4)(1 := None)\<rparr>)"
    by simp
  from h0 h3 n1 1 2 show ?thesis by blast
qed

text \<open>
  C9. A first argument that is a string with no leading decimal number is parsed to 0
  by \<^verbatim>\<open>atoll\<close>: the constructor returns \<^verbatim>\<open>true\<close> and the object it hands out holds a
  payload whose value is 0.
\<close>

theorem construct_without_number_gives_zero:
  assumes "no_leading_number s" and "get_arg args 0 = JSString s"
  shows "atoll s = Some 0 \<and>
    (\<exists>cx'. AdaptedMyType_construct a args cx = Some (True, cx') \<and>
       rval cx' = JSObject (next_obj cx) \<and>
       this_payload \<lparr>thisv = rval cx', argv = []\<rparr> cx' = Some \<lparr>val = 0\<rparr>)"
proof -
  obtain neg ds where rs: "read_sign (dropWhile isspace s) = (neg, ds)"
    by (cases "read_sign (dropWhile isspace s)")
  with assms(1) have "read_digits 0 ds = 0"
    by (cases ds) (simp_all add: no_leading_number_def)
  with rs have z: "atoll s = Some 0"
    by (simp add: atoll_def)
  show ?thesis
    by (simp add: z construct_result [OF assms(2) z] this_payload_def JS_GetPrivate_def)
qed

theorem construct_without_number_gives_zero_witness:
  "no_leading_number ''abc'' \<and> atoll ''abc'' = Some 0 \<and>
   (\<exists>cx'. AdaptedMyType_construct a0 \<lparr>thisv = JSUndefined, argv = [JSString ''abc'']\<rparr> cx4 =
       Some (True, cx') \<and>
     rval cx' = JSObject (next_obj cx4) \<and>
     this_payload \<lparr>thisv = rval cx', argv = []\<rparr> cx' = Some \<lparr>val = 0\<rparr>)"
proof -
  have n: "no_leading_number ''abc''"
    by (simp add: no_leading_number_def isspace_def isdigit_def)
  have g: "get_arg \<lparr>thisv = JSUndefined, argv = [JSString ''abc'']\<rparr> 0 = JSString ''abc''"
    by (simp add: get_arg_def)
  from construct_without_number_gives_zero [OF n g, of a0 cx4] n
  show ?thesis by simp
qed

subsection \<open>Strings that survive parsing and printing\<close>

lemma digit_char_digit_val: "isdigit c \<Longrightarrow> digit_char (digit_val c) = c"
  by (simp add: isdigit_def digit_char_def digit_val_def)

lemma digit_val_less: "isdigit c \<Longrightarrow> digit_val c < 10"
  by (auto simp: isdigit_def digit_val_def)

lemma digit_char_numerals:
  "digit_char 0 = CHR ''0''" "digit_char (Suc 0) = CHR ''1''" "digit_char 2 = CHR ''2''"
  "digit_char 3 = CHR ''3''" "digit_char 4 = CHR ''4''" "digit_char 5 = CHR ''5''"
  "digit_char 6 = CHR ''6''" "digit_char 7 = CHR ''7''" "digit_char 8 = CHR ''8''"
  "digit_char 9 = CHR ''9''"
  by code_simp+

lemma dec_small: "n < 10 \<Longrightarrow> dec n = [digit_char n]"
  by (subst dec.simps) simp

lemma dec_large: "\<not> n < 10 \<Longrightarrow> dec n = dec (n div 10) @ [digit_char (n mod 10)]"
  by (subst dec.simps) simp

lemma len64: "LENGTH(64) - 1 = 63"
  by simp

lemma dec_read_digits:
  "xs \<noteq> [] \<Longrightarrow> list_all isdigit xs \<Longrightarrow> (hd xs = CHR ''0'' \<longrightarrow> xs = ''0'') \<Longrightarrow>
   dec (read_digits 0 xs) = xs"
proof (induction xs rule: rev_induct)
  case Nil
  then show ?case by simp
next
  case (snoc d xs)
  from snoc.prems(2) have d: "isdigit d" and ds: "\<forall>c\<in>set xs. isdigit c"
    by (simp_all add: list_all_iff)
  have rd: "read_digits 0 (xs @ [d]) = 10 * read_digits 0 xs + digit_val d"
    using ds d by (rule read_digits_snoc)
  show ?case
  proof (cases "xs = []")
    case True
    then show ?thesis
      using d by (simp add: dec_small digit_val_less digit_char_digit_val)
  next
    case False
    then have hd0: "hd xs \<noteq> CHR ''0''"
      using snoc.prems(3) by (cases xs) auto
    have ih: "dec (read_digits 0 xs) = xs"
      using False ds hd0 by (intro snoc.IH) (simp_all add: list_all_iff)
    have pos: "read_digits 0 xs \<noteq> 0"
    proof
      assume "read_digits 0 xs = 0"
      with ih have "xs = dec 0" by simp
      then have "xs = ''0''" by (simp add: dec_small digit_char_numerals)
      with hd0 show False by simp
    qed
    let ?n = "10 * read_digits 0 xs + digit_val d"
    have big: "\<not> ?n < 10" using pos by simp
    have q: "?n div 10 = read_digits 0 xs" and r: "?n mod 10 = digit_val d"
      using digit_val_less [OF d] by simp_all
    have "dec ?n = dec (?n div 10) @ [digit_char (?n mod 10)]"
      using big by (rule dec_large)
    also have "\<dots> = xs @ [d]"
      using d by (simp only: q r ih digit_char_digit_val)
    finally show ?thesis by (simp only: rd)
  qed
qed

lemma read_sign_cases:
  assumes "read_sign s = (neg, ds)" and "neg \<or> ds = s"
  shows "if neg then s = CHR ''-'' # ds else s = ds"
  using assms by (cases s) (auto split: if_splits)

lemma to_string_atoll_canonical:
  assumes "canonical_decimal s"
  shows "\<exists>v. atoll s = Some v \<and> to_string v = s"
proof -
  obtain neg ds where rs: "read_sign s = (neg, ds)"
    by (cases "read_sign s")
  from assms rs obtain c cs where ds: "ds = c # cs"
    and lead: "c \<noteq> CHR ''0'' \<or> (cs = [] \<and> \<not> neg)"
    by (cases ds) (auto simp: canonical_decimal_def)
  let ?n = "read_digits 0 ds"
  let ?v = "if neg then - int ?n else int ?n"
  from assms rs have dig: "list_all isdigit ds" and form: "neg \<or> ds = s"
    and lo: "- (2 ^ 63) \<le> ?v" and hi: "?v < 2 ^ 63"
    by (simp_all add: canonical_decimal_def decimal_int64_def Let_def)
  have shape: "if neg then s = CHR ''-'' # ds else s = ds"
    using rs form by (rule read_sign_cases)
  have c: "isdigit c" using dig ds by simp
  have nospace: "dropWhile isspace s = s"
    using shape ds c by (auto simp: minus_not_space isdigit_not_space split: if_splits)
  have at: "atoll s = Some (word_of_int ?v)"
    using lo hi by (simp add: atoll_def nospace rs)
  have sv: "sint (word_of_int ?v :: 64 word) = ?v"
    using lo hi by (simp only: sint_sbintrunc' signed_take_bit_int_eq_self len64)
  have pr: "dec ?n = ds"
    using ds lead by (intro dec_read_digits dig) auto
  have "to_string (word_of_int ?v) = s"
  proof (cases neg)
    case True
    with lead ds have "c \<noteq> CHR ''0''" by simp
    have "?n \<noteq> 0"
    proof
      assume "?n = 0"
      with pr have "ds = dec 0" by simp
      then have "ds = ''0''" by (simp add: dec_small digit_char_numerals)
      with ds \<open>c \<noteq> CHR ''0''\<close> show False by simp
    qed
    with True have neg_v: "?v < 0" and abs_v: "nat (- ?v) = ?n" by simp_all
    have "to_string (word_of_int ?v) = CHR ''-'' # dec (nat (- ?v))"
      using neg_v by (simp only: to_string_def sv if_True)
    with abs_v pr shape True show ?thesis by simp
  next
    case False
    then have nn: "\<not> ?v < 0" and abs_v: "nat ?v = ?n" by simp_all
    have "to_string (word_of_int ?v) = dec (nat ?v)"
      using nn by (simp only: to_string_def sv if_False)
    with abs_v pr shape False show ?thesis by simp
  qed
  with at show ?thesis by blast
qed

lemma to_string_examples:
  "to_string 9223372036854775807 = ''9223372036854775807''"
  "to_string 7 = ''7''"
  by (simp_all add: to_string_def dec_small dec_large digit_char_numerals)

lemma atoll_examples:
  "atoll ''9223372036854775807'' = Some 9223372036854775807"
  "atoll ''007'' = Some 7"
  by (simp_all add: atoll_def isspace_def isdigit_def digit_val_def)

lemma decimal_examples:
  "decimal_int64 ''007''"
  "canonical_decimal ''9223372036854775807''"
  by (simp_all add: canonical_decimal_def decimal_int64_def isdigit_def digit_val_def)

text \<open>
  C6, as stated, fails: \<^verbatim>\<open>"007"\<close> is a decimal string of a value in range, and
  \<^verbatim>\<open>new MyType("007").toString()\<close> is \<^verbatim>\<open>"7"\<close>.
\<close>

theorem decimal_roundtrip_counterexample:
  "decimal_int64 ''007'' \<and>
   construct_toString a0 ''007'' cx4 = Some (JSString ''7'') \<and>
   JSString ''7'' \<noteq> JSString ''007''"
  by (simp add: decimal_examples construct_toString_atoll [OF atoll_examples(2)]
      to_string_examples)

text \<open>
  C6, amended. For every decimal string of a 64-bit signed integer in the form
  \<^verbatim>\<open>std::to_string\<close> prints (no leading zero, no minus sign before zero), constructing
  an instance from it and calling \<^verbatim>\<open>toString\<close> returns the string exactly, and every
  64-bit value has such a string; the value never passes through a double. A string
  that \<^verbatim>\<open>atoll\<close> reads as \<open>w\<close> comes back as the printed form of \<open>w\<close>.
\<close>

theorem canonical_decimal_roundtrip:
  "(canonical_decimal s \<longrightarrow> construct_toString a s cx = Some (JSString s)) \<and>
   construct_toString a (to_string v) cx = Some (JSString (to_string v)) \<and>
   (\<forall>w. atoll s = Some w \<longrightarrow> construct_toString a s cx = Some (JSString (to_string w)))"
proof (intro conjI impI allI)
  assume "canonical_decimal s"
  then obtain w where "atoll s = Some w" and "to_string w = s"
    using to_string_atoll_canonical by blast
  then show "construct_toString a s cx = Some (JSString s)"
    by (simp add: construct_toString_atoll)
next
  show "construct_toString a (to_string v) cx = Some (JSString (to_string v))"
    by (simp add: construct_toString_atoll atoll_to_string)
next
  fix w
  assume "atoll s = Some w"
  then show "construct_toString a s cx = Some (JSString (to_string w))"
    by (rule construct_toString_atoll)
qed

theorem canonical_decimal_roundtrip_witness:
  "canonical_decimal ''9223372036854775807'' \<and>
   construct_toString a0 ''9223372036854775807'' cx4 =
     Some (JSString ''9223372036854775807'') \<and>
   atoll ''007'' = Some 7 \<and>
   construct_toString a0 ''007'' cx4 = Some (JSString ''7'')"
proof -
  note T = canonical_decimal_roundtrip [where a = a0 and cx = cx4]
  from T [of "''9223372036854775807''"] decimal_examples(2)
  have 1: "construct_toString a0 ''9223372036854775807'' cx4 =
      Some (JSString ''9223372036854775807'')"
    by blast
  from T [of "''007''"] atoll_examples(2)
  have 2: "construct_toString a0 ''007'' cx4 = Some (JSString ''7'')"
    by (simp add: to_string_examples)
  from decimal_examples(2) 1 atoll_examples(2) 2 show ?thesis by blast
qed

subsection \<open>Writing the private slot\<close>







section \<open>Properties of instance creation\<close>

text \<open>
  C8. When the construct hook fails, \<^verbatim>\<open>newInstance\<close> returns the hook's failure and no
  object, and the object it had created is no longer in the heap; every other object
  is as the hook left it. When the hook returns, \<^verbatim>\<open>newInstance\<close> returns the object.
  The hand-written \<^verbatim>\<open>construct\<close> has no failing return: whenever it returns, the
  object it hands out already holds a live payload.
\<close>

theorem newInstance_discards_on_failure:
  "(construct_hook \<lparr>thisv = JSObject (fst (newObject w cx)), argv = as\<rparr>
       (snd (newObject w cx)) = (Some e, cxh) \<longrightarrow>
      fst (newInstance w construct_hook as cx) = Inl e \<and>
      heap (snd (newInstance w construct_hook as cx)) (fst (newObject w cx)) = None \<and>
      (\<forall>x. x \<noteq> fst (newObject w cx) \<longrightarrow>
         heap (snd (newInstance w construct_hook as cx)) x = heap cxh x)) \<and>
   (construct_hook \<lparr>thisv = JSObject (fst (newObject w cx)), argv = as\<rparr>
       (snd (newObject w cx)) = (None, cxh) \<longrightarrow>
      newInstance w construct_hook as cx = (Inr (fst (newObject w cx)), cxh)) \<and>
   (AdaptedMyType_construct a args cx = Some (ok, cx') \<longrightarrow>
      ok \<and> (\<exists>out p m. rval cx' = JSObject out \<and> JS_GetPrivate cx' out = Some p \<and>
        native cx' p = Some m))"
proof -
  obtain obj cx1 where n: "newObject w cx = (obj, cx1)"
    by (cases "newObject w cx")
  have failed: "fst (newInstance w construct_hook as cx) = Inl e \<and>
      heap (snd (newInstance w construct_hook as cx)) obj = None \<and>
      (\<forall>x. x \<noteq> obj \<longrightarrow> heap (snd (newInstance w construct_hook as cx)) x = heap cxh x)"
    if "construct_hook \<lparr>thisv = JSObject obj, argv = as\<rparr> cx1 = (Some e, cxh)"
    using that by (simp add: newInstance_def n)
  have built: "newInstance w construct_hook as cx = (Inr obj, cxh)"
    if "construct_hook \<lparr>thisv = JSObject obj, argv = as\<rparr> cx1 = (None, cxh)"
    using that by (simp add: newInstance_def n)
  have populated: "ok \<and> (\<exists>out p m. rval cx' = JSObject out \<and>
      JS_GetPrivate cx' out = Some p \<and> native cx' p = Some m)"
    if c: "AdaptedMyType_construct a args cx = Some (ok, cx')"
  proof -
    from c obtain s v where "get_arg args 0 = JSString s" and "atoll s = Some v"
      by (rule construct_Some)
    from construct_result [OF this, of a cx] c show ?thesis
      by (auto simp: JS_GetPrivate_def)
  qed
  from failed built populated show ?thesis
    unfolding n fst_conv snd_conv by blast
qed

theorem newInstance_discards_on_failure_witness:
  "fst (newObject a0 cx4) = 4 \<and>
   fst (newInstance a0 failing_hook [JSString ''x''] cx4) =
     Inl (runtime_error ''construction failed'') \<and>
   heap (snd (newInstance a0 failing_hook [JSString ''x''] cx4)) 4 = None \<and>
   heap (snd (newInstance a0 failing_hook [JSString ''x''] cx4)) 3 = heap cx4 3 \<and>
   fst (newInstance a0 counting_body [] cx4) = Inr 4 \<and>
   (\<exists>cx' out p m.
      AdaptedMyType_construct a0 \<lparr>thisv = JSUndefined, argv = [JSString ''007'']\<rparr> cx4 =
        Some (True, cx') \<and>
      rval cx' = JSObject out \<and> JS_GetPrivate cx' out = Some p \<and> native cx' p = Some m)"
proof -
  let ?args = "\<lparr>thisv = JSUndefined, argv = [JSString ''007'']\<rparr>"
  have g: "get_arg ?args 0 = JSString ''007''"
    by (simp add: get_arg_def)
  define cx' where "cx' = snd (the (AdaptedMyType_construct a0 ?args cx4))"
  have c: "AdaptedMyType_construct a0 ?args cx4 = Some (True, cx')"
    by (simp add: cx'_def construct_result [OF g atoll_examples(2)])
  from newInstance_discards_on_failure [where a = a0 and args = ?args and cx = cx4
      and ok = True and cx' = cx'] c
  have 5: "\<exists>out p m. rval cx' = JSObject out \<and> JS_GetPrivate cx' out = Some p \<and>
      native cx' p = Some m"
    by blast
  have n: "fst (newObject a0 cx4) = 4"
    by (simp add: newObject_def JS_NewObject_def cx4_eq)
  have f: "failing_hook \<lparr>thisv = JSObject (fst (newObject a0 cx4)), argv = [JSString ''x'']\<rparr>
      (snd (newObject a0 cx4)) = (Some (runtime_error ''construction failed''), snd (newObject a0 cx4))"
    by (simp add: failing_hook_def)
  have k: "counting_body \<lparr>thisv = JSObject (fst (newObject a0 cx4)), argv = []\<rparr>
      (snd (newObject a0 cx4)) = (None, bump_rval (snd (newObject a0 cx4)))"
    by (simp add: counting_body_def)
  have h: "heap (snd (newObject a0 cx4)) 3 = heap cx4 3"
    by (simp add: newObject_def JS_NewObject_def cx4_eq)
  from newInstance_discards_on_failure [where construct_hook = failing_hook and w = a0
      and cx = cx4 and as = "[JSString ''x'']"
      and e = "runtime_error ''construction failed''" and cxh = "snd (newObject a0 cx4)"] f
  have 1: "fst (newInstance a0 failing_hook [JSString ''x''] cx4) =
      Inl (runtime_error ''construction failed'')"
    and 2: "heap (snd (newInstance a0 failing_hook [JSString ''x''] cx4)) 4 = None"
    and 3: "heap (snd (newInstance a0 failing_hook [JSString ''x''] cx4)) 3 = heap cx4 3"
    by (simp_all add: n h)
  from newInstance_discards_on_failure [where construct_hook = counting_body and w = a0
      and cx = cx4 and as = "[]" and cxh = "bump_rval (snd (newObject a0 cx4))"] k
  have 4: "fst (newInstance a0 counting_body [] cx4) = Inr 4"
    by (simp add: n)
  from n 1 2 3 4 5 c show ?thesis by blast
qed

section \<open>What the steps of the program keep\<close>

text \<open>
  The steps of the program keep \<open>installed\<close>: a new object is allocated past every
  earlier one, the constructor writes only the slot of the object it has made, and
  the finalizer touches only the native heap.
\<close>

lemma installed_JS_NewObject:
  "installed a cx \<Longrightarrow> installed a (snd (JS_NewObject c p cx))"
  by (auto simp: installed_def JS_NewObject_def split: option.splits)

lemma installed_newObject:
  "installed a cx \<Longrightarrow> installed a (snd (newObject b cx))"
  by (simp add: newObject_def installed_JS_NewObject)

lemma installed_init_other:
  "installed a cx \<Longrightarrow> installed a (snd (AdaptedMyType_init c cx))"
  using installed_JS_NewObject [of a cx c None]
  by (cases "JS_NewObject c None cx") (simp add: AdaptedMyType_init_def JS_InitClass_def)

lemma installed_construct:
  assumes "installed a cx" and "AdaptedMyType_construct b args cx = Some (ok, cx')"
  shows "installed a cx'"
proof -
  from assms(2) obtain s v where "get_arg args 0 = JSString s" and "atoll s = Some v"
    by (rule construct_Some)
  from construct_result [OF this, of b cx] assms show ?thesis
    by (auto simp: installed_def split: option.splits)
qed

lemma installed_finalize:
  "installed a cx \<Longrightarrow> AdaptedMyType_finalize obj cx = Some cx' \<Longrightarrow> installed a cx'"
  by (auto simp: AdaptedMyType_finalize_def cpp_delete_def installed_def
      split: option.splits)

lemma installed_refused:
  "installed a cx \<Longrightarrow> installed a (cx\<lparr>pending := e\<rparr>)"
  by (simp add: installed_def)

text \<open>The number accessor does lose the low bits of the largest value.\<close>

lemma bit_count_zero: "bit_count 0 = 0"
  by (subst bit_count.simps) simp

lemma bit_count_pos: "n \<noteq> 0 \<Longrightarrow> bit_count n = Suc (bit_count (n div 2))"
  by (subst bit_count.simps) simp

lemma int64_to_double_rounds: "int64_to_double 9223372036854775807 = 9223372036854775808"
  by (simp add: int64_to_double_def bit_count_zero bit_count_pos Let_def)

end
